theory Spec2Isabelle
  imports Complex_Main "HOL-Library.Word" "HOL-Library.Log_Nat"
begin

section \<open>The DigiVerifier audio bridge\<close>

text \<open>
  A shallow embedding of \<^verbatim>\<open>src/utils/audioUtils.ts\<close> (PCM codec, transport
  encoding, resampler) and of the class \<^verbatim>\<open>GeminiLiveService\<close> in
  \<^verbatim>\<open>src/services/geminiLiveService.ts\<close> (session bridge, capture set-up,
  playback scheduler).

  Conventions of the embedding.
  \<^item> A JavaScript number is an IEEE-754 double. Every finite double is a rational, so
    finite numbers are values of type \<open>rat\<close> and each arithmetic operation of the source
    is the exact operation followed by the rounding \<open>fl64\<close> (round to nearest, ties to
    even, 53-bit significand). A store into a \<^verbatim>\<open>Float32Array\<close> rounds once more with
    \<open>fl32\<close>. Overflow to an infinity is not modelled (no quantity of the bridge gets
    near \<open>2^1024\<close>); \<^verbatim>\<open>NaN\<close> is the value \<open>None\<close> of type \<open>rat option\<close>.
  \<^item> Objects of the browser and of the SDK (audio contexts, nodes, streams, the live
    session) are records holding the part of their state the bridge can change or read.
  \<^item> A \<^verbatim>\<open>throw\<close> or a rejected promise that is awaited is the left summand of a
    result of type \<open>error + 'a\<close>.
  \<^item> A typed array constructed with the length of an array or a string that already
    exists is taken to be allocated. Where the code computes the length (the resampler)
    the allocation can fail, and the largest length the engine grants is a parameter.
  \<^item> An \<^verbatim>\<open>async\<close> method is modelled as running to completion: the interleaving of
    other events at an \<^verbatim>\<open>await\<close> is outside the embedding.
\<close>

subsection \<open>Errors\<close>

datatype error =
    Error string  \<comment> \<open>a plain \<^verbatim>\<open>Error\<close>, or whatever value the platform or a handler raised\<close>
  | InvalidCharacterError  \<comment> \<open>\<^verbatim>\<open>atob\<close> on text that is not base64\<close>
  | RangeError  \<comment> \<open>typed-array construction with a bad length\<close>
  | NotSupportedError  \<comment> \<open>\<^verbatim>\<open>createBuffer\<close> with zero frames\<close>

subsection \<open>Numbers: doubles and floats as rounded rationals\<close>

text \<open>\<open>ilog2 q\<close> is \<open>\<lfloor>log\<^sub>2 \<bar>q\<bar>\<rfloor>\<close> for \<open>q \<noteq> 0\<close>: the binary exponent of \<open>q\<close>.\<close>

definition ilog2 :: "rat \<Rightarrow> int" where
  "ilog2 q =
     (let a = \<bar>q\<bar> in
      if 1 \<le> a then int (floorlog 2 (nat \<lfloor>a\<rfloor>)) - 1
      else - int (floorlog 2 (nat (\<lceil>1 / a\<rceil> - 1))))"

text \<open>Round to the nearest integer, a tie to the even neighbour.\<close>

definition round_even :: "rat \<Rightarrow> int" where
  "round_even x =
     (let f = \<lfloor>x\<rfloor>; d = x - of_int f in
      if d < 1 / 2 then f
      else if 1 / 2 < d then f + 1
      else if even f then f else f + 1)"

text \<open>
  \<open>fround p emin q\<close>: the nearest binary floating-point number to \<open>q\<close> with a \<open>p\<close>-bit
  significand and least normal exponent \<open>emin\<close> (below it the spacing stays that of the
  subnormals).
\<close>

definition fround :: "nat \<Rightarrow> int \<Rightarrow> rat \<Rightarrow> rat" where
  "fround p emin q =
     (if q = 0 then 0
      else let u = 2 powi (max (ilog2 q) emin - int p + 1)
           in of_int (round_even (q / u)) * u)"

definition fl64 :: "rat \<Rightarrow> rat" where
  "fl64 = fround 53 (- 1022)"

definition fl32 :: "rat \<Rightarrow> rat" where
  "fl32 = fround 24 (- 126)"

text \<open>A number that may be \<^verbatim>\<open>NaN\<close> (\<open>None\<close>).\<close>

type_synonym number = "rat option"

type_synonym Float32Array = "number list"
type_synonym Int16Array = "16 word list"
type_synonym ArrayBuffer = "8 word list"

subsection \<open>PCM codec (\<^verbatim>\<open>float32ToInt16\<close>, \<^verbatim>\<open>int16ToFloat32\<close>)\<close>






text \<open>
  \<^verbatim>\<open>s < 0 ? s / 0x8000 : s / 0x7FFF\<close> is computed as a double and rounded to single
  precision by the store into the \<^verbatim>\<open>Float32Array\<close>.
\<close>

definition unscale_sample :: "16 word \<Rightarrow> number" where
  "unscale_sample w =
     (let s = sint w in
      Some (fl32 (if s < 0 then fl64 (of_int s / 32768) else fl64 (of_int s / 32767))))"

definition int16ToFloat32 :: "Int16Array \<Rightarrow> Float32Array" where
  "int16ToFloat32 int16 = map unscale_sample int16"

subsection \<open>Transport encoding (\<^verbatim>\<open>arrayBufferToBase64\<close>, \<^verbatim>\<open>base64ToArrayBuffer\<close>)\<close>

text \<open>
  \<^verbatim>\<open>btoa\<close> and \<^verbatim>\<open>atob\<close> belong to the browser, not to the repository. They are
  modelled from their definition in the HTML standard: \<^verbatim>\<open>btoa\<close> is the base64 encoding
  of RFC 4648 with padding, \<^verbatim>\<open>atob\<close> is the standard's forgiving-base64 decode. A binary
  string (code units 0 to 255) is a \<open>string\<close>, whose characters are bytes; so the check of
  \<^verbatim>\<open>btoa\<close> for a code unit above 255 cannot fail here, and base64 text with a code unit
  above 255 (which \<^verbatim>\<open>atob\<close> rejects) is not represented.
\<close>

text \<open>The alphabet \<^verbatim>\<open>A-Z a-z 0-9 + /\<close> by position, and the position of a character in it.\<close>

definition b64_char :: "nat \<Rightarrow> char" where
  "b64_char n =
     char_of (if n < 26 then 65 + n
              else if n < 52 then 71 + n
              else if n < 62 then n - 4
              else if n = 62 then 43 else (47::nat))"

definition b64_index :: "char \<Rightarrow> nat option" where
  "b64_index c =
     (let n = (of_char c :: nat) in
      if 65 \<le> n \<and> n \<le> 90 then Some (n - 65)
      else if 97 \<le> n \<and> n \<le> 122 then Some (n - 71)
      else if 48 \<le> n \<and> n \<le> 57 then Some (n + 4)
      else if n = 43 then Some 62
      else if n = 47 then Some 63
      else None)"

fun b64_encode :: "nat list \<Rightarrow> string" where
  "b64_encode (a # b # c # r) =
     b64_char (a div 4) # b64_char ((a mod 4) * 16 + b div 16) #
     b64_char ((b mod 16) * 4 + c div 64) # b64_char (c mod 64) # b64_encode r"
| "b64_encode [a, b] =
     [b64_char (a div 4), b64_char ((a mod 4) * 16 + b div 16),
      b64_char ((b mod 16) * 4), CHR ''='']"
| "b64_encode [a] = [b64_char (a div 4), b64_char ((a mod 4) * 16), CHR ''='', CHR ''='']"
| "b64_encode [] = []"

definition btoa :: "string \<Rightarrow> error + string" where
  "btoa binary = Inr (b64_encode (map of_char binary))"

definition ascii_whitespace :: "char \<Rightarrow> bool" where
  "ascii_whitespace c = ((of_char c :: nat) \<in> {9, 10, 12, 13, 32})"

text \<open>
  If the length is a multiple of four, one or two trailing \<^verbatim>\<open>=\<close> are removed.
\<close>

definition strip_padding :: "string \<Rightarrow> string" where
  "strip_padding d =
     (if length d mod 4 \<noteq> 0 then d
      else if 2 \<le> length d \<and> last d = CHR ''='' \<and> last (butlast d) = CHR ''=''
        then butlast (butlast d)
      else if 1 \<le> length d \<and> last d = CHR ''='' then butlast d
      else d)"

text \<open>
  Four sextets give three bytes; a final group of three sextets gives two bytes and one of
  two sextets gives one byte, the left-over bits being discarded.
\<close>

fun b64_decode :: "nat list \<Rightarrow> nat list" where
  "b64_decode (s1 # s2 # s3 # s4 # r) =
     (s1 * 4 + s2 div 16) # ((s2 mod 16) * 16 + s3 div 4) # ((s3 mod 4) * 64 + s4) #
     b64_decode r"
| "b64_decode [s1, s2, s3] = [s1 * 4 + s2 div 16, (s2 mod 16) * 16 + s3 div 4]"
| "b64_decode [s1, s2] = [s1 * 4 + s2 div 16]"
| "b64_decode [s1] = []"
| "b64_decode [] = []"

definition atob :: "string \<Rightarrow> error + string" where
  "atob text =
     (let d = strip_padding (filter (\<lambda>c. \<not> ascii_whitespace c) text) in
      if length d mod 4 = 1 then Inl InvalidCharacterError
      else case those (map b64_index d) of
             None \<Rightarrow> Inl InvalidCharacterError
           | Some sextets \<Rightarrow> Inr (map char_of (b64_decode sextets)))"

text \<open>\<^verbatim>\<open>String.fromCharCode(bytes[i])\<close> and \<^verbatim>\<open>bytes[i] = binaryString.charCodeAt(i)\<close>.\<close>

definition fromCharCode :: "8 word \<Rightarrow> char" where
  "fromCharCode b = char_of (unat b)"

definition charCodeAt :: "char \<Rightarrow> 8 word" where
  "charCodeAt c = of_nat (of_char c)"

definition arrayBufferToBase64 :: "ArrayBuffer \<Rightarrow> error + string" where
  "arrayBufferToBase64 buffer = btoa (map fromCharCode buffer)"

definition base64ToArrayBuffer :: "string \<Rightarrow> error + ArrayBuffer" where
  "base64ToArrayBuffer base64 =
     (case atob base64 of
        Inl e \<Rightarrow> Inl e
      | Inr binaryString \<Rightarrow> Inr (map charCodeAt binaryString))"

subsection \<open>Resampler (\<^verbatim>\<open>downsampleTo16000\<close>)\<close>

text \<open>
  A read \<^verbatim>\<open>buffer[k]\<close> of a typed array outside \<open>0 \<le> k < length\<close> raises nothing: it
  yields \<^verbatim>\<open>undefined\<close>, which arithmetic turns into \<^verbatim>\<open>NaN\<close>.
\<close>

definition in_bounds :: "Float32Array \<Rightarrow> int \<Rightarrow> bool" where
  "in_bounds buffer k = (0 \<le> k \<and> k < int (length buffer))"

definition js_get :: "Float32Array \<Rightarrow> int \<Rightarrow> number" where
  "js_get buffer k = (if in_bounds buffer k then buffer ! nat k else None)"

text \<open>The quantities of one iteration of the loop, for the output index \<open>i\<close>.\<close>

definition sample_offset :: "rat \<Rightarrow> nat \<Rightarrow> rat" where
  "sample_offset ratio i = fl64 (of_nat i * ratio)"

definition sample_index :: "rat \<Rightarrow> nat \<Rightarrow> int" where
  "sample_index ratio i = \<lfloor>sample_offset ratio i\<rfloor>"





text \<open>
  \<^verbatim>\<open>Math.ceil(buffer.length / ratio)\<close>. The quotient is a double; with \<open>ratio = 0\<close> it
  is \<^verbatim>\<open>NaN\<close> for an empty buffer (then \<^verbatim>\<open>new Float32Array(NaN)\<close> is empty and the
  loop does not run) and an infinity otherwise.
\<close>

definition newLength :: "Float32Array \<Rightarrow> rat \<Rightarrow> int" where
  "newLength buffer ratio = \<lceil>fl64 (of_nat (length buffer) / ratio)\<rceil>"



subsection \<open>Playable buffers (\<^verbatim>\<open>createAudioBufferFromPCM\<close>)\<close>

text \<open>
  \<^verbatim>\<open>new Int16Array(arrayBuffer)\<close> views the bytes as little-endian 16-bit integers and
  raises a \<^verbatim>\<open>RangeError\<close> when their number is odd.
\<close>

fun Int16Array_of_buffer :: "ArrayBuffer \<Rightarrow> error + Int16Array" where
  "Int16Array_of_buffer [] = Inr []"
| "Int16Array_of_buffer [b] = Inl RangeError"
| "Int16Array_of_buffer (lo # hi # r) =
     (case Int16Array_of_buffer r of
        Inl e \<Rightarrow> Inl e
      | Inr ws \<Rightarrow> Inr ((ucast lo + push_bit 8 (ucast hi)) # ws))"

record AudioBuffer =
  channelData :: Float32Array
  bufferRate :: rat

text \<open>\<^verbatim>\<open>AudioBuffer.duration\<close>: the number of frames over the sample rate, a double.\<close>

definition duration :: "AudioBuffer \<Rightarrow> rat" where
  "duration b = fl64 (of_nat (length (channelData b)) / bufferRate b)"

text \<open>
  \<^verbatim>\<open>context.createBuffer(1, n, sampleRate)\<close> raises a \<^verbatim>\<open>NotSupportedError\<close> for
  \<open>n = 0\<close> frames; \<^verbatim>\<open>copyToChannel\<close> then fills the channel.
\<close>

definition createAudioBufferFromPCM :: "Int16Array \<Rightarrow> rat \<Rightarrow> error + AudioBuffer" where
  "createAudioBufferFromPCM pcmData sampleRate =
     (let float32 = int16ToFloat32 pcmData in
      if length float32 = 0 then Inl NotSupportedError
      else Inr \<lparr>channelData = float32, bufferRate = sampleRate\<rparr>)"

subsection \<open>Platform objects\<close>

datatype AudioContextState = Suspended | Running | Closed

text \<open>A started \<^verbatim>\<open>AudioBufferSourceNode\<close>: its buffer and the time given to \<^verbatim>\<open>start\<close>.\<close>

record BufferSource =
  sourceBuffer :: AudioBuffer
  startTime :: rat

record AudioContext =
  ctxState :: AudioContextState
  currentTime :: rat
  started :: "BufferSource list"

datatype Destination = ToAnalyser | ToProcessor | ToContextDestination

text \<open>An audio node: the list of what its output is connected to.\<close>

record AudioNode =
  connections :: "Destination list"

record AnalyserNode =
  fftSize :: nat
  analyserConnections :: "Destination list"

record MediaStreamTrack =
  enabled :: bool
  ended :: bool

record MediaStream =
  tracks :: "MediaStreamTrack list"

record FunctionResponse =
  fr_id :: string
  fr_name :: string
  fr_response :: "(string \<times> string) list"

text \<open>
  The live session: whether \<^verbatim>\<open>close\<close> was called, and the messages handed to
  \<^verbatim>\<open>sendToolResponse\<close>, each the list \<^verbatim>\<open>functionResponses\<close> of the message.
\<close>

record LiveSession =
  sessionClosed :: bool
  toolResponses :: "FunctionResponse list list"

definition sendToolResponse :: "FunctionResponse list \<Rightarrow> LiveSession \<Rightarrow> LiveSession" where
  "sendToolResponse functionResponses sess =
     sess\<lparr>toolResponses := toolResponses sess @ [functionResponses]\<rparr>"

subsection \<open>Inbound messages and tool callbacks\<close>

record FunctionCall =
  fc_id :: string
  fc_name :: string
  fc_args :: "(string \<times> string) list"

record Blob =
  blobData :: "string option"

record Part =
  inlineData :: "Blob option"

record Content =
  parts :: "Part list option"

record LiveServerContent =
  modelTurn :: "Content option"

record LiveServerToolCall =
  functionCalls :: "FunctionCall list"

record LiveServerMessage =
  serverContent :: "LiveServerContent option"
  toolCall :: "LiveServerToolCall option"

text \<open>
  The application's handlers act on a state \<open>'st\<close> of their own. A handler that throws
  (for \<^verbatim>\<open>onVerifyDetails\<close>: whose promise rejects) returns \<open>Inl\<close>.
\<close>

record 'st ToolCallbacks =
  onSaveAadhar :: "(string \<times> string) list \<Rightarrow> 'st \<Rightarrow> (error + unit) \<times> 'st"
  onSavePan :: "(string \<times> string) list \<Rightarrow> 'st \<Rightarrow> (error + unit) \<times> 'st"
  onVerifyDetails :: "(string \<times> string) list \<Rightarrow> 'st \<Rightarrow> (error + string) \<times> 'st"
  onCreateDigilocker :: "(string \<times> string) list \<Rightarrow> 'st \<Rightarrow> (error + unit) \<times> 'st"

subsection \<open>The service\<close>

record GeminiLiveService =
  session :: "LiveSession option"
  inputAudioContext :: "AudioContext option"
  outputAudioContext :: "AudioContext option"
  inputSource :: "AudioNode option"
  processor :: "AudioNode option"
  nextStartTime :: rat
  inputAnalyser :: "AnalyserNode option"
  outputAnalyser :: "AnalyserNode option"
  mediaStream :: "MediaStream option"

text \<open>The fields as the constructor leaves them.\<close>

definition new_service :: GeminiLiveService where
  "new_service =
     \<lparr>session = None, inputAudioContext = None, outputAudioContext = None,
      inputSource = None, processor = None, nextStartTime = 0,
      inputAnalyser = None, outputAnalyser = None, mediaStream = None\<rparr>"

subsubsection \<open>\<^verbatim>\<open>connect\<close> and \<^verbatim>\<open>setupMicrophone\<close>\<close>

text \<open>
  What the platform answers during one \<^verbatim>\<open>connect\<close>: the two contexts the constructor
  returns, the outcome of each \<^verbatim>\<open>resume\<close> (an error when its promise rejects), of the
  handshake \<^verbatim>\<open>client.live.connect\<close> and of \<^verbatim>\<open>getUserMedia\<close>.
\<close>

record Platform =
  newInputContext :: AudioContext
  newOutputContext :: AudioContext
  resumeInput :: "error option"
  resumeOutput :: "error option"
  liveConnect :: "error + LiveSession"
  getUserMedia :: "error + MediaStream"

definition setupMicrophone ::
  "Platform \<Rightarrow> GeminiLiveService \<Rightarrow> (error + unit) \<times> GeminiLiveService" where
  "setupMicrophone pf s =
     (case inputAudioContext s of
        None \<Rightarrow> (Inr (), s)
      | Some ctx \<Rightarrow>
          (case getUserMedia pf of
             Inl e \<Rightarrow> (Inl e, s)
           | Inr stream \<Rightarrow>
               (Inr (),
                s\<lparr>mediaStream := Some stream,
                  inputSource := Some \<lparr>connections = [ToAnalyser, ToProcessor]\<rparr>,
                  processor := Some \<lparr>connections = [ToContextDestination]\<rparr>\<rparr>)))"

text \<open>
  \<^verbatim>\<open>if (ctx.state === 'suspended') await ctx.resume()\<close>: a rejection is raised by the
  \<^verbatim>\<open>await\<close>.
\<close>

definition resume_if_suspended :: "error option \<Rightarrow> AudioContext \<Rightarrow> error + AudioContext" where
  "resume_if_suspended outcome ctx =
     (if ctxState ctx = Suspended
      then (case outcome of Some e \<Rightarrow> Inl e | None \<Rightarrow> Inr (ctx\<lparr>ctxState := Running\<rparr>))
      else Inr ctx)"

definition connect ::
  "Platform \<Rightarrow> GeminiLiveService \<Rightarrow> (error + unit) \<times> GeminiLiveService" where
  "connect pf s =
     (let s1 = s\<lparr>inputAudioContext := Some (newInputContext pf),
                 outputAudioContext := Some (newOutputContext pf)\<rparr> in
      case resume_if_suspended (resumeInput pf) (newInputContext pf) of
        Inl e \<Rightarrow> (Inl e, s1)
      | Inr ictx \<Rightarrow>
      (let s2 = s1\<lparr>inputAudioContext := Some ictx\<rparr> in
       case resume_if_suspended (resumeOutput pf) (newOutputContext pf) of
         Inl e \<Rightarrow> (Inl e, s2)
       | Inr octx \<Rightarrow>
       (let s3 = s2\<lparr>outputAudioContext := Some octx,
                    inputAnalyser := Some \<lparr>fftSize = 256, analyserConnections = []\<rparr>,
                    outputAnalyser := Some \<lparr>fftSize = 256, analyserConnections = []\<rparr>,
                    nextStartTime := currentTime octx\<rparr> in
        case liveConnect pf of
          Inl e \<Rightarrow> (Inl e, s3)
        | Inr sess \<Rightarrow> setupMicrophone pf (s3\<lparr>session := Some sess\<rparr>))))"

subsubsection \<open>\<^verbatim>\<open>queueAudio\<close>: the playback scheduler\<close>

text \<open>
  The body of the \<^verbatim>\<open>try\<close> block up to the buffer: \<^verbatim>\<open>base64ToArrayBuffer\<close>,
  \<^verbatim>\<open>new Int16Array\<close>, \<^verbatim>\<open>createAudioBufferFromPCM\<close> at 24 kHz. Each can throw.
\<close>

definition decode_chunk :: "string \<Rightarrow> error + AudioBuffer" where
  "decode_chunk base64Data =
     (case base64ToArrayBuffer base64Data of
        Inl e \<Rightarrow> Inl e
      | Inr arrayBuffer \<Rightarrow>
          (case Int16Array_of_buffer arrayBuffer of
             Inl e \<Rightarrow> Inl e
           | Inr int16Data \<Rightarrow> createAudioBufferFromPCM int16Data 24000))"

text \<open>
  \<open>resumeOk\<close> tells whether a \<^verbatim>\<open>resume\<close> of the suspended output context succeeds; a
  failure is logged and the method goes on. A failure of the decoding is caught and
  logged. Otherwise the source is started at the cursor, after the cursor was moved up
  to the clock when it was behind.
\<close>

definition queueAudio :: "bool \<Rightarrow> string \<Rightarrow> GeminiLiveService \<Rightarrow> GeminiLiveService" where
  "queueAudio resumeOk base64Data s =
     (case (outputAudioContext s, outputAnalyser s) of
        (Some ctx0, Some analyser) \<Rightarrow>
          (let ctx = (if ctxState ctx0 = Suspended \<and> resumeOk
                      then ctx0\<lparr>ctxState := Running\<rparr> else ctx0);
               s1 = s\<lparr>outputAudioContext := Some ctx\<rparr> in
           case decode_chunk base64Data of
             Inl e \<Rightarrow> s1
           | Inr audioBuffer \<Rightarrow>
               (let start = (if nextStartTime s1 < currentTime ctx
                             then currentTime ctx else nextStartTime s1) in
                s1\<lparr>outputAnalyser :=
                     Some (analyser\<lparr>analyserConnections :=
                       analyserConnections analyser @ [ToContextDestination]\<rparr>),
                   outputAudioContext :=
                     Some (ctx\<lparr>started := started ctx @
                       [\<lparr>sourceBuffer = audioBuffer, startTime = start\<rparr>]\<rparr>),
                   nextStartTime := fl64 (start + duration audioBuffer)\<rparr>))
      | _ \<Rightarrow> s)"

subsubsection \<open>\<^verbatim>\<open>handleMessage\<close>: the session bridge\<close>

text \<open>\<^verbatim>\<open>message.serverContent?.modelTurn?.parts?.[0]?.inlineData?.data\<close>\<close>

definition audioData :: "LiveServerMessage \<Rightarrow> string option" where
  "audioData message =
     (case serverContent message of None \<Rightarrow> None | Some sc \<Rightarrow>
     (case modelTurn sc of None \<Rightarrow> None | Some mt \<Rightarrow>
     (case parts mt of None \<Rightarrow> None | Some ps \<Rightarrow>
     (case ps of [] \<Rightarrow> None | p # rest \<Rightarrow>
     (case inlineData p of None \<Rightarrow> None | Some blob \<Rightarrow> blobData blob)))))"

text \<open>
  The \<^verbatim>\<open>try\<close>/\<^verbatim>\<open>catch\<close> of one invocation: the payload of its response and the
  application state the handler leaves.
\<close>

definition run_tool ::
  "'st ToolCallbacks \<Rightarrow> FunctionCall \<Rightarrow> 'st \<Rightarrow> (string \<times> string) list \<times> 'st" where
  "run_tool callbacks call st =
     (if fc_name call = ''saveAadhar'' then
        (case onSaveAadhar callbacks (fc_args call) st of
           (Inr _, st') \<Rightarrow> ([(''status'', ''Aadhar Saved. Proceed to PAN.'')], st')
         | (Inl e, st') \<Rightarrow> ([(''error'', ''Failed to execute tool'')], st'))
      else if fc_name call = ''savePan'' then
        (case onSavePan callbacks (fc_args call) st of
           (Inr _, st') \<Rightarrow> ([(''status'', ''PAN Saved. Proceed to Verify.'')], st')
         | (Inl e, st') \<Rightarrow> ([(''error'', ''Failed to execute tool'')], st'))
      else if fc_name call = ''verifyDetails'' then
        (case onVerifyDetails callbacks (fc_args call) st of
           (Inr result, st') \<Rightarrow> ([(''status'', result)], st')
         | (Inl e, st') \<Rightarrow> ([(''error'', ''Failed to execute tool'')], st'))
      else if fc_name call = ''createDigilocker'' then
        (case onCreateDigilocker callbacks (fc_args call) st of
           (Inr _, st') \<Rightarrow> ([(''status'', ''Account Created.'')], st')
         | (Inl e, st') \<Rightarrow> ([(''error'', ''Failed to execute tool'')], st'))
      else ([(''result'', ''ok'')], st))"

text \<open>
  One iteration of the loop over \<^verbatim>\<open>toolCall.functionCalls\<close>: run the handler, then
  \<^verbatim>\<open>this.session?.sendToolResponse\<close> with the single correlated entry.
\<close>

definition handle_call ::
  "'st ToolCallbacks \<Rightarrow> FunctionCall \<Rightarrow> GeminiLiveService \<times> 'st \<Rightarrow> GeminiLiveService \<times> 'st"
  where
  "handle_call callbacks call = (\<lambda>(s, st).
     (let (responseResult, st') = run_tool callbacks call st in
      (s\<lparr>session := map_option
            (sendToolResponse
               [\<lparr>fr_id = fc_id call, fr_name = fc_name call, fr_response = responseResult\<rparr>])
            (session s)\<rparr>,
       st')))"

fun handle_calls ::
  "'st ToolCallbacks \<Rightarrow> FunctionCall list \<Rightarrow> GeminiLiveService \<times> 'st \<Rightarrow>
   GeminiLiveService \<times> 'st" where
  "handle_calls callbacks [] x = x"
| "handle_calls callbacks (call # calls) x =
     handle_calls callbacks calls (handle_call callbacks call x)"

text \<open>An empty string is falsy: \<^verbatim>\<open>if (audioData)\<close> skips it.\<close>

definition handleMessage ::
  "'st ToolCallbacks \<Rightarrow> bool \<Rightarrow> LiveServerMessage \<Rightarrow> GeminiLiveService \<times> 'st \<Rightarrow>
   GeminiLiveService \<times> 'st" where
  "handleMessage callbacks resumeOk message = (\<lambda>(s, st).
     (let s1 = (case audioData message of
                  None \<Rightarrow> s
                | Some d \<Rightarrow> if d = [] then s else queueAudio resumeOk d s) in
      case toolCall message of
        None \<Rightarrow> (s1, st)
      | Some tc \<Rightarrow> handle_calls callbacks (functionCalls tc) (s1, st)))"

subsubsection \<open>\<^verbatim>\<open>disconnect\<close>\<close>

text \<open>
  None of the platform methods called here throws, whatever the state of its receiver:
  closing a closed session, disconnecting a node that has no connection and stopping an
  ended track do nothing, and \<^verbatim>\<open>close\<close> on a closed context returns a promise (that
  rejects), which the method drops. A receiver that is \<^verbatim>\<open>null\<close> is skipped by
  \<^verbatim>\<open>?.\<close> and by the \<^verbatim>\<open>if\<close>. So the method is a total state transformer.
\<close>

definition disconnect :: "GeminiLiveService \<Rightarrow> GeminiLiveService" where
  "disconnect s =
     s\<lparr>session := map_option (\<lambda>x. x\<lparr>sessionClosed := True\<rparr>) (session s),
       inputSource := map_option (\<lambda>n. n\<lparr>connections := []\<rparr>) (inputSource s),
       processor := map_option (\<lambda>n. n\<lparr>connections := []\<rparr>) (processor s),
       inputAudioContext := map_option (\<lambda>c. c\<lparr>ctxState := Closed\<rparr>) (inputAudioContext s),
       outputAudioContext := map_option (\<lambda>c. c\<lparr>ctxState := Closed\<rparr>) (outputAudioContext s),
       mediaStream :=
         map_option (\<lambda>m. m\<lparr>tracks := map (\<lambda>t. t\<lparr>ended := True\<rparr>) (tracks m)\<rparr>)
           (mediaStream s)\<rparr>"

subsection \<open>Notions used by the properties\<close>

text \<open>
  Every resource the service holds is released: the session is closed, the capture nodes
  have no connection, both contexts are closed and every microphone track has ended.
\<close>

definition released :: "GeminiLiveService \<Rightarrow> bool" where
  "released s =
     ((case session s of None \<Rightarrow> True | Some x \<Rightarrow> sessionClosed x) \<and>
      (case inputSource s of None \<Rightarrow> True | Some n \<Rightarrow> connections n = []) \<and>
      (case processor s of None \<Rightarrow> True | Some n \<Rightarrow> connections n = []) \<and>
      (case inputAudioContext s of None \<Rightarrow> True | Some c \<Rightarrow> ctxState c = Closed) \<and>
      (case outputAudioContext s of None \<Rightarrow> True | Some c \<Rightarrow> ctxState c = Closed) \<and>
      (case mediaStream s of None \<Rightarrow> True | Some m \<Rightarrow> list_all ended (tracks m)))"

text \<open>
  \<open>releases s s'\<close>: the service \<open>s'\<close> holds exactly the resources \<open>s\<close> held, each of them
  released. A field that was \<^verbatim>\<open>null\<close> is still \<^verbatim>\<open>null\<close>; a held session is the
  same session, closed; a held node the same node without connections; a held context
  the same context, closed; a held microphone stream has the same tracks, all ended, with
  their \<^verbatim>\<open>enabled\<close> flags as they were. The cursor and the two analysers are
  untouched.
\<close>

definition releases :: "GeminiLiveService \<Rightarrow> GeminiLiveService \<Rightarrow> bool" where
  "releases s s' =
     ((case session s of
         None \<Rightarrow> session s' = None
       | Some x \<Rightarrow> session s' = Some (x\<lparr>sessionClosed := True\<rparr>)) \<and>
      (case inputSource s of
         None \<Rightarrow> inputSource s' = None
       | Some n \<Rightarrow> inputSource s' = Some (n\<lparr>connections := []\<rparr>)) \<and>
      (case processor s of
         None \<Rightarrow> processor s' = None
       | Some n \<Rightarrow> processor s' = Some (n\<lparr>connections := []\<rparr>)) \<and>
      (case inputAudioContext s of
         None \<Rightarrow> inputAudioContext s' = None
       | Some c \<Rightarrow> inputAudioContext s' = Some (c\<lparr>ctxState := Closed\<rparr>)) \<and>
      (case outputAudioContext s of
         None \<Rightarrow> outputAudioContext s' = None
       | Some c \<Rightarrow> outputAudioContext s' = Some (c\<lparr>ctxState := Closed\<rparr>)) \<and>
      (case mediaStream s of
         None \<Rightarrow> mediaStream s' = None
       | Some m \<Rightarrow>
           (case mediaStream s' of
              None \<Rightarrow> False
            | Some m' \<Rightarrow>
                length (tracks m') = length (tracks m) \<and>
                map enabled (tracks m') = map enabled (tracks m) \<and>
                list_all ended (tracks m'))) \<and>
      nextStartTime s' = nextStartTime s \<and>
      inputAnalyser s' = inputAnalyser s \<and>
      outputAnalyser s' = outputAnalyser s)"

text \<open>The application state after the handlers of a list of invocations have run in order.\<close>

fun run_tools :: "'st ToolCallbacks \<Rightarrow> FunctionCall list \<Rightarrow> 'st \<Rightarrow> 'st" where
  "run_tools callbacks [] st = st"
| "run_tools callbacks (call # calls) st =
     run_tools callbacks calls (snd (run_tool callbacks call st))"

text \<open>The payloads the \<^verbatim>\<open>try\<close>/\<^verbatim>\<open>catch\<close> produces for them, in order.\<close>

fun tool_results ::
  "'st ToolCallbacks \<Rightarrow> FunctionCall list \<Rightarrow> 'st \<Rightarrow> (string \<times> string) list list" where
  "tool_results callbacks [] st = []"
| "tool_results callbacks (call # calls) st =
     fst (run_tool callbacks call st) #
     tool_results callbacks calls (snd (run_tool callbacks call st))"

text \<open>The handler selected for an invocation throws in the application state \<open>st\<close>.\<close>

definition handler_throws :: "'st ToolCallbacks \<Rightarrow> FunctionCall \<Rightarrow> 'st \<Rightarrow> bool" where
  "handler_throws callbacks call st =
     (fc_name call = ''saveAadhar'' \<and> isl (fst (onSaveAadhar callbacks (fc_args call) st)) \<or>
      fc_name call = ''savePan'' \<and> isl (fst (onSavePan callbacks (fc_args call) st)) \<or>
      fc_name call = ''verifyDetails'' \<and> isl (fst (onVerifyDetails callbacks (fc_args call) st)) \<or>
      fc_name call = ''createDigilocker'' \<and>
        isl (fst (onCreateDigilocker callbacks (fc_args call) st)))"

definition known_tool :: "string \<Rightarrow> bool" where
  "known_tool name =
     (name = ''saveAadhar'' \<or> name = ''savePan'' \<or> name = ''verifyDetails'' \<or>
      name = ''createDigilocker'')"

text \<open>The sources started on the output context, in the order of their \<^verbatim>\<open>start\<close>.\<close>

definition scheduled :: "GeminiLiveService \<Rightarrow> BufferSource list" where
  "scheduled s = (case outputAudioContext s of None \<Rightarrow> [] | Some c \<Rightarrow> started c)"

text \<open>The output clock reads \<open>t\<close>: a step of the platform, not of the service.\<close>

definition clock_at :: "rat \<Rightarrow> GeminiLiveService \<Rightarrow> GeminiLiveService" where
  "clock_at t s =
     s\<lparr>outputAudioContext := map_option (\<lambda>c. c\<lparr>currentTime := t\<rparr>) (outputAudioContext s)\<rparr>"

text \<open>
  The distance between neighbouring floating-point numbers at \<open>q\<close>: the unit in the last
  place of the format with \<open>p\<close> significant bits.
\<close>

definition spacing :: "nat \<Rightarrow> int \<Rightarrow> rat \<Rightarrow> rat" where
  "spacing p emin q = 2 powi (max (ilog2 q) emin - int p + 1)"

text \<open>
  The encoding of a byte sequence taken apart: its sextets, and the padding that fills
  the last group of four characters.
\<close>

fun b64_sextets :: "nat list \<Rightarrow> nat list" where
  "b64_sextets (a # b # c # r) =
     a div 4 # ((a mod 4) * 16 + b div 16) # ((b mod 16) * 4 + c div 64) # c mod 64 #
     b64_sextets r"
| "b64_sextets [a, b] = [a div 4, (a mod 4) * 16 + b div 16, (b mod 16) * 4]"
| "b64_sextets [a] = [a div 4, (a mod 4) * 16]"
| "b64_sextets [] = []"

fun b64_padding :: "nat list \<Rightarrow> string" where
  "b64_padding (a # b # c # r) = b64_padding r"
| "b64_padding [a, b] = [CHR ''='']"
| "b64_padding [a] = [CHR ''='', CHR ''='']"
| "b64_padding [] = []"

subsection \<open>Example inputs\<close>

text \<open>
  Handlers over a counter as application state: \<^verbatim>\<open>onSavePan\<close> throws, the others
  succeed and count.
\<close>

definition example_callbacks :: "nat ToolCallbacks" where
  "example_callbacks =
     \<lparr>onSaveAadhar = (\<lambda>a n. (Inr (), n + 1)),
      onSavePan = (\<lambda>a n. (Inl (Error ''storage unavailable''), n)),
      onVerifyDetails = (\<lambda>a n. (Inr ''MATCH'', n + 1)),
      onCreateDigilocker = (\<lambda>a n. (Inr (), n + 1))\<rparr>"

definition example_calls :: "FunctionCall list" where
  "example_calls =
     [\<lparr>fc_id = ''c1'', fc_name = ''saveAadhar'', fc_args = [(''fullName'', ''A'')]\<rparr>,
      \<lparr>fc_id = ''c2'', fc_name = ''savePan'', fc_args = [(''fullName'', ''A'')]\<rparr>,
      \<lparr>fc_id = ''c3'', fc_name = ''lookupWeather'', fc_args = []\<rparr>,
      \<lparr>fc_id = ''c4'', fc_name = ''verifyDetails'', fc_args = [(''action'', ''compare'')]\<rparr>]"

text \<open>A connected service whose output clock reads 5 while the cursor is still at 0.\<close>

definition example_service :: GeminiLiveService where
  "example_service =
     \<lparr>session = Some \<lparr>sessionClosed = False, toolResponses = []\<rparr>,
      inputAudioContext = Some \<lparr>ctxState = Running, currentTime = 5, started = []\<rparr>,
      outputAudioContext = Some \<lparr>ctxState = Running, currentTime = 5, started = []\<rparr>,
      inputSource = Some \<lparr>connections = [ToAnalyser, ToProcessor]\<rparr>,
      processor = Some \<lparr>connections = [ToContextDestination]\<rparr>,
      nextStartTime = 0,
      inputAnalyser = Some \<lparr>fftSize = 256, analyserConnections = []\<rparr>,
      outputAnalyser = Some \<lparr>fftSize = 256, analyserConnections = []\<rparr>,
      mediaStream = Some \<lparr>tracks = [\<lparr>enabled = True, ended = False\<rparr>]\<rparr>\<rparr>"

text \<open>A platform on which the handshake succeeds and the microphone is refused.\<close>

definition microphone_refused :: Platform where
  "microphone_refused =
     \<lparr>newInputContext = \<lparr>ctxState = Suspended, currentTime = 0, started = []\<rparr>,
      newOutputContext = \<lparr>ctxState = Running, currentTime = 0, started = []\<rparr>,
      resumeInput = None, resumeOutput = None,
      liveConnect = Inr \<lparr>sessionClosed = False, toolResponses = []\<rparr>,
      getUserMedia = Inl (Error ''Permission denied'')\<rparr>"

section \<open>Properties\<close>

subsection \<open>Disconnecting\<close>

lemma released_disconnect: "released (disconnect s)"
  by (simp add: released_def disconnect_def list_all_iff split: option.splits)

lemma disconnect_idem: "disconnect (disconnect s) = disconnect s"
  by (simp add: disconnect_def option.map_comp comp_def)

lemma disconnect_new: "disconnect new_service = new_service"
  by (simp add: disconnect_def new_service_def)

lemma releases_disconnect: "releases s (disconnect s)"
  by (simp add: releases_def disconnect_def list_all_iff comp_def split: option.splits)

text \<open>
  Claim C8. \<^verbatim>\<open>disconnect\<close> never raises: each call in it is guarded by \<^verbatim>\<open>?.\<close> or
  by the \<^verbatim>\<open>if\<close> and no platform method it calls throws, so it is defined on every
  state of the service. What the service held before the call it holds after it, released:
  the same session closed, the same capture nodes without connections, the same two audio
  contexts closed, the same microphone tracks ended; nothing is dropped and nothing else
  is changed. On a service that was never connected it changes nothing, and a second
  call in a row finds everything released and leaves the state as it is.
\<close>

theorem disconnect_safe:
  "releases s (disconnect s) \<and>
   releases (disconnect s) (disconnect (disconnect s)) \<and>
   released (disconnect s) \<and> released (disconnect (disconnect s)) \<and>
   disconnect (disconnect s) = disconnect s \<and> disconnect new_service = new_service"
  using releases_disconnect [of s] releases_disconnect [of "disconnect s"]
  by (simp add: released_disconnect disconnect_idem disconnect_new)

theorem disconnect_safe_witness:
  "releases example_service (disconnect example_service) \<and>
   session (disconnect example_service) = Some \<lparr>sessionClosed = True, toolResponses = []\<rparr> \<and>
   mediaStream (disconnect example_service) =
     Some \<lparr>tracks = [\<lparr>enabled = True, ended = True\<rparr>]\<rparr> \<and>
   released (disconnect (disconnect example_service))"
proof -
  have "session (disconnect example_service) = Some \<lparr>sessionClosed = True, toolResponses = []\<rparr>"
    "mediaStream (disconnect example_service) =
       Some \<lparr>tracks = [\<lparr>enabled = True, ended = True\<rparr>]\<rparr>"
    by (simp_all add: disconnect_def example_service_def)
  with disconnect_safe [of example_service] show ?thesis by simp
qed

subsection \<open>Connecting\<close>

lemma resume_if_suspended_Inr:
  "resume_if_suspended outcome ctx = Inr c \<Longrightarrow>
   c = ctx \<or> (ctxState ctx = Suspended \<and> c = ctx\<lparr>ctxState := Running\<rparr>)"
  by (auto simp: resume_if_suspended_def split: if_splits option.splits)

lemma resume_if_suspended_open:
  "resume_if_suspended outcome ctx = Inr c \<Longrightarrow> ctxState ctx \<noteq> Closed \<Longrightarrow> ctxState c \<noteq> Closed"
  by (auto dest: resume_if_suspended_Inr)

lemma resume_if_suspended_Inl:
  "resume_if_suspended outcome ctx = Inl e \<Longrightarrow> outcome = Some e"
  by (auto simp: resume_if_suspended_def split: if_splits option.splits)

lemma connect_microphone_refused:
  "connect microphone_refused new_service =
     (Inl (Error ''Permission denied''),
      new_service
        \<lparr>session := Some \<lparr>sessionClosed = False, toolResponses = []\<rparr>,
         inputAudioContext := Some \<lparr>ctxState = Running, currentTime = 0, started = []\<rparr>,
         outputAudioContext := Some \<lparr>ctxState = Running, currentTime = 0, started = []\<rparr>,
         inputAnalyser := Some \<lparr>fftSize = 256, analyserConnections = []\<rparr>,
         outputAnalyser := Some \<lparr>fftSize = 256, analyserConnections = []\<rparr>\<rparr>)"
  by (simp add: connect_def setupMicrophone_def resume_if_suspended_def new_service_def
      microphone_refused_def)

text \<open>
  Claim C2, as stated, fails. On a platform that accepts the handshake and refuses the
  microphone, \<^verbatim>\<open>connect\<close> on a fresh service raises the platform's error, and the
  service is left holding two running audio contexts and the open remote stream.
\<close>

theorem connect_failure_counterexample:
  "fst (connect microphone_refused new_service) = Inl (Error ''Permission denied'') \<and>
   \<not> released (snd (connect microphone_refused new_service)) \<and>
   session (snd (connect microphone_refused new_service)) =
     Some \<lparr>sessionClosed = False, toolResponses = []\<rparr> \<and>
   map_option ctxState (inputAudioContext (snd (connect microphone_refused new_service))) =
     Some Running \<and>
   map_option ctxState (outputAudioContext (snd (connect microphone_refused new_service))) =
     Some Running"
  unfolding connect_microphone_refused by (simp add: released_def new_service_def)

text \<open>
  Claim C2, amended. Whenever \<^verbatim>\<open>connect\<close> fails, the error it raises is the one the
  platform gave at the failing step (a rejected \<^verbatim>\<open>resume\<close>, the rejected handshake or
  the failed microphone acquisition), and nothing acquired before that step is torn down:
  the service holds both new audio contexts, not closed; after a rejected handshake its
  session field is what it was; after a failed microphone acquisition it holds the
  established remote stream as the handshake returned it. The failed call attaches no
  microphone stream and no capture node.
\<close>

theorem connect_failure_keeps_resources:
  assumes "connect pf s = (Inl e, s')"
  shows "(resumeInput pf = Some e \<or> resumeOutput pf = Some e \<or> liveConnect pf = Inl e \<or>
          getUserMedia pf = Inl e) \<and>
         (\<exists>ic oc. inputAudioContext s' = Some ic \<and> outputAudioContext s' = Some oc \<and>
            (ctxState (newInputContext pf) \<noteq> Closed \<longrightarrow> ctxState ic \<noteq> Closed) \<and>
            (ctxState (newOutputContext pf) \<noteq> Closed \<longrightarrow> ctxState oc \<noteq> Closed)) \<and>
         (liveConnect pf = Inl e \<longrightarrow> session s' = session s) \<and>
         (\<forall>sess. liveConnect pf = Inr sess \<and> getUserMedia pf = Inl e \<and>
            resumeInput pf \<noteq> Some e \<and> resumeOutput pf \<noteq> Some e \<longrightarrow> session s' = Some sess) \<and>
         mediaStream s' = mediaStream s \<and> inputSource s' = inputSource s \<and>
         processor s' = processor s"
  using assms
  by (auto simp: connect_def setupMicrophone_def Let_def
      split: sum.splits option.splits
      dest: resume_if_suspended_Inl resume_if_suspended_open)

theorem connect_failure_keeps_resources_witness:
  "connect microphone_refused new_service =
     (Inl (Error ''Permission denied''), snd (connect microphone_refused new_service)) \<and>
   getUserMedia microphone_refused = Inl (Error ''Permission denied'') \<and>
   (\<exists>ic oc. inputAudioContext (snd (connect microphone_refused new_service)) = Some ic \<and>
      outputAudioContext (snd (connect microphone_refused new_service)) = Some oc \<and>
      ctxState ic \<noteq> Closed \<and> ctxState oc \<noteq> Closed) \<and>
   session (snd (connect microphone_refused new_service)) =
     Some \<lparr>sessionClosed = False, toolResponses = []\<rparr> \<and>
   mediaStream (snd (connect microphone_refused new_service)) = None"
proof -
  have c: "connect microphone_refused new_service =
      (Inl (Error ''Permission denied''), snd (connect microphone_refused new_service))"
    by (simp add: connect_microphone_refused)
  have pf: "getUserMedia microphone_refused = Inl (Error ''Permission denied'')"
    "liveConnect microphone_refused = Inr \<lparr>sessionClosed = False, toolResponses = []\<rparr>"
    "resumeInput microphone_refused = None" "resumeOutput microphone_refused = None"
    "ctxState (newInputContext microphone_refused) \<noteq> Closed"
    "ctxState (newOutputContext microphone_refused) \<noteq> Closed"
    by (simp_all add: microphone_refused_def)
  have "mediaStream new_service = None"
    by (simp add: new_service_def)
  with connect_failure_keeps_resources [OF c] c pf show ?thesis
    by simp
qed

subsection \<open>Tool calls\<close>

lemma run_tool_unknown:
  "\<not> known_tool (fc_name call) \<Longrightarrow> run_tool callbacks call st = ([(''result'', ''ok'')], st)"
  by (simp add: run_tool_def known_tool_def)

lemma run_tool_throws:
  "handler_throws callbacks call st \<Longrightarrow>
   fst (run_tool callbacks call st) = [(''error'', ''Failed to execute tool'')]"
  by (auto simp: run_tool_def handler_throws_def isl_def split: prod.splits sum.splits)

lemma session_queueAudio: "session (queueAudio resumeOk d s) = session s"
  by (simp add: queueAudio_def Let_def split: option.splits sum.splits)

lemma length_tool_results: "length (tool_results callbacks calls st) = length calls"
  by (induction calls arbitrary: st) simp_all

lemma nth_tool_results:
  "i < length calls \<Longrightarrow>
   tool_results callbacks calls st ! i =
     fst (run_tool callbacks (calls ! i) (run_tools callbacks (take i calls) st))"
proof (induction calls arbitrary: st i)
  case Nil
  then show ?case by simp
next
  case (Cons call calls)
  then show ?case by (cases i) simp_all
qed

lemma handle_calls_session:
  assumes "session s = Some sess"
  shows "\<exists>sess'. session (fst (handle_calls callbacks calls (s, st))) = Some sess' \<and>
     toolResponses sess' = toolResponses sess @
       map2 (\<lambda>c r. [\<lparr>fr_id = fc_id c, fr_name = fc_name c, fr_response = r\<rparr>])
         calls (tool_results callbacks calls st)"
  using assms
proof (induction calls arbitrary: s st sess)
  case Nil
  then show ?case by simp
next
  case (Cons call calls)
  obtain r st1 where r: "run_tool callbacks call st = (r, st1)"
    by (cases "run_tool callbacks call st")
  let ?sess1 = "sendToolResponse [\<lparr>fr_id = fc_id call, fr_name = fc_name call, fr_response = r\<rparr>] sess"
  let ?s1 = "s\<lparr>session := Some ?sess1\<rparr>"
  have step: "handle_call callbacks call (s, st) = (?s1, st1)"
    using Cons.prems r by (simp add: handle_call_def)
  have "session ?s1 = Some ?sess1" by simp
  from Cons.IH [OF this, of st1] obtain sess' where
    s': "session (fst (handle_calls callbacks calls (?s1, st1))) = Some sess'"
      "toolResponses sess' = toolResponses ?sess1 @
         map2 (\<lambda>c r. [\<lparr>fr_id = fc_id c, fr_name = fc_name c, fr_response = r\<rparr>])
         calls (tool_results callbacks calls st1)"
    by blast
  show ?case
    using s' r by (simp add: step sendToolResponse_def)
qed

text \<open>
  Claim C1. A message with \<open>n\<close> invocations, received on an established session, makes
  the bridge send \<open>n\<close> tool-response messages after those sent before, each with one
  entry, the \<open>i\<close>-th carrying the id and the name of the \<open>i\<close>-th invocation and the payload
  its handler produced in the application state left by the invocations before it. That
  payload is the generic \<^verbatim>\<open>{result: "ok"}\<close> when the name is none of the four tools, and
  the error payload when the handler throws.
\<close>

theorem handleMessage_tool_responses:
  assumes "session s = Some sess" and "toolCall message = Some tc"
    and "functionCalls tc = calls"
  shows "\<exists>sess' rs.
     session (fst (handleMessage callbacks resumeOk message (s, st))) = Some sess' \<and>
     toolResponses sess' = toolResponses sess @ map (\<lambda>r. [r]) rs \<and>
     length rs = length calls \<and>
     map fr_id rs = map fc_id calls \<and> map fr_name rs = map fc_name calls \<and>
     (\<forall>i < length calls.
        fr_response (rs ! i) =
          fst (run_tool callbacks (calls ! i) (run_tools callbacks (take i calls) st)) \<and>
        (\<not> known_tool (fc_name (calls ! i)) \<longrightarrow> fr_response (rs ! i) = [(''result'', ''ok'')]) \<and>
        (handler_throws callbacks (calls ! i) (run_tools callbacks (take i calls) st) \<longrightarrow>
           fr_response (rs ! i) = [(''error'', ''Failed to execute tool'')]))"
proof -
  define s1 where "s1 = (case audioData message of None \<Rightarrow> s
      | Some d \<Rightarrow> if d = [] then s else queueAudio resumeOk d s)"
  have s1: "session s1 = Some sess"
    using assms(1) by (simp add: s1_def session_queueAudio split: option.splits)
  have hm: "handleMessage callbacks resumeOk message (s, st) = handle_calls callbacks calls (s1, st)"
    using assms(2,3) by (simp add: handleMessage_def s1_def Let_def)
  define rs where "rs = map2 (\<lambda>c r. \<lparr>fr_id = fc_id c, fr_name = fc_name c, fr_response = r\<rparr>)
      calls (tool_results callbacks calls st)"
  have len: "length rs = length calls"
    by (simp add: rs_def length_tool_results)
  from handle_calls_session [OF s1, of callbacks calls st] obtain sess' where
    s': "session (fst (handle_calls callbacks calls (s1, st))) = Some sess'"
      "toolResponses sess' = toolResponses sess @ map (\<lambda>r. [r]) rs"
    by (auto simp: rs_def map_zip_map2 comp_def split_def zip_map2 map_map)
  have nth: "rs ! i = \<lparr>fr_id = fc_id (calls ! i), fr_name = fc_name (calls ! i),
      fr_response = fst (run_tool callbacks (calls ! i) (run_tools callbacks (take i calls) st))\<rparr>"
    if "i < length calls" for i
    using that by (simp add: rs_def length_tool_results nth_tool_results)
  have ids: "map fr_id rs = map fc_id calls" "map fr_name rs = map fc_name calls"
    by (rule nth_equalityI; simp add: len nth)+
  have resp: "fr_response (rs ! i) =
      fst (run_tool callbacks (calls ! i) (run_tools callbacks (take i calls) st))"
    if "i < length calls" for i
    using that by (simp add: nth)
  show ?thesis
    using s' len ids resp run_tool_unknown [of _ callbacks] run_tool_throws [of callbacks]
    by (intro exI [of _ sess'] exI [of _ rs]) (simp add: hm)
qed

lemma example_throws:
  "handler_throws example_callbacks (example_calls ! 1)
     (run_tools example_callbacks (take 1 example_calls) 0)"
  by (simp add: handler_throws_def example_callbacks_def example_calls_def)

lemma example_unknown: "\<not> known_tool (fc_name (example_calls ! 2))"
  by (simp add: known_tool_def example_calls_def)

theorem handleMessage_tool_responses_witness:
  "\<exists>sess' rs.
     session (fst (handleMessage example_callbacks True
       \<lparr>serverContent = None, toolCall = Some \<lparr>functionCalls = example_calls\<rparr>\<rparr>
       (example_service, 0))) = Some sess' \<and>
     toolResponses sess' = map (\<lambda>r. [r]) rs \<and>
     length rs = 4 \<and>
     map fr_id rs = [''c1'', ''c2'', ''c3'', ''c4''] \<and>
     fr_response (rs ! 1) = [(''error'', ''Failed to execute tool'')] \<and>
     fr_response (rs ! 2) = [(''result'', ''ok'')]"
proof -
  have h: "session example_service = Some \<lparr>sessionClosed = False, toolResponses = []\<rparr>"
    "toolCall \<lparr>serverContent = None, toolCall = Some \<lparr>functionCalls = example_calls\<rparr>\<rparr> =
       Some \<lparr>functionCalls = example_calls\<rparr>"
    "functionCalls \<lparr>functionCalls = example_calls\<rparr> = example_calls"
    by (simp_all add: example_service_def)
  have n: "length example_calls = 4" "map fc_id example_calls = [''c1'', ''c2'', ''c3'', ''c4'']"
    by (simp_all add: example_calls_def)
  from handleMessage_tool_responses [OF h, of example_callbacks True 0]
  obtain sess' rs where *:
    "session (fst (handleMessage example_callbacks True
       \<lparr>serverContent = None, toolCall = Some \<lparr>functionCalls = example_calls\<rparr>\<rparr>
       (example_service, 0))) = Some sess'"
    "toolResponses sess' =
       toolResponses \<lparr>sessionClosed = False, toolResponses = []\<rparr> @ map (\<lambda>r. [r]) rs"
    "length rs = length example_calls" "map fr_id rs = map fc_id example_calls"
    and all: "\<forall>i<length example_calls.
      fr_response (rs ! i) =
          fst (run_tool example_callbacks (example_calls ! i)
            (run_tools example_callbacks (take i example_calls) 0)) \<and>
      (\<not> known_tool (fc_name (example_calls ! i)) \<longrightarrow>
               fr_response (rs ! i) = [(''result'', ''ok'')]) \<and>
      (handler_throws example_callbacks (example_calls ! i)
         (run_tools example_callbacks (take i example_calls) 0) \<longrightarrow>
       fr_response (rs ! i) = [(''error'', ''Failed to execute tool'')])"
    by blast
  have lt: "1 < length example_calls" "2 < length example_calls"
    by (simp_all add: n)
  from all lt(1) example_throws
  have "fr_response (rs ! 1) = [(''error'', ''Failed to execute tool'')]"
    by blast
  moreover from all lt(2) example_unknown
  have "fr_response (rs ! 2) = [(''result'', ''ok'')]"
    by blast
  moreover have "toolResponses sess' = map (\<lambda>r. [r]) rs" "length rs = 4"
    "map fr_id rs = [''c1'', ''c2'', ''c3'', ''c4'']"
    using *(2-4) by (simp_all add: n)
  ultimately show ?thesis using *(1) by (intro exI [of _ sess'] exI [of _ rs]) simp
qed

subsection \<open>Audio of a message\<close>

text \<open>
  Claim C10. Of a message whose model turn has the parts \<open>p # ps\<close>, the audio read is the
  inline data of the first part \<open>p\<close> alone: handling the message is handling the message
  with the later parts \<open>ps\<close> removed. So when the first part carries no inline data nothing
  is queued, whatever the later parts carry, and when it carries a non-empty payload that
  payload is what the playback scheduler receives.
\<close>

theorem first_part_only:
  "audioData \<lparr>serverContent = Some \<lparr>modelTurn = Some \<lparr>parts = Some (p # ps)\<rparr>\<rparr>, toolCall = tc\<rparr> =
     (case inlineData p of None \<Rightarrow> None | Some blob \<Rightarrow> blobData blob) \<and>
   handleMessage callbacks resumeOk
     \<lparr>serverContent = Some \<lparr>modelTurn = Some \<lparr>parts = Some (p # ps)\<rparr>\<rparr>, toolCall = tc\<rparr> x =
   handleMessage callbacks resumeOk
     \<lparr>serverContent = Some \<lparr>modelTurn = Some \<lparr>parts = Some [p]\<rparr>\<rparr>, toolCall = tc\<rparr> x \<and>
   handleMessage callbacks resumeOk
     \<lparr>serverContent = Some \<lparr>modelTurn = Some \<lparr>parts = Some (\<lparr>inlineData = None\<rparr> # ps)\<rparr>\<rparr>,
      toolCall = None\<rparr> (s, st) = (s, st) \<and>
   handleMessage callbacks resumeOk
     \<lparr>serverContent = Some \<lparr>modelTurn = Some
        \<lparr>parts = Some (\<lparr>inlineData = Some \<lparr>blobData = Some (c # d)\<rparr>\<rparr> # ps)\<rparr>\<rparr>,
      toolCall = None\<rparr> (s, st) = (queueAudio resumeOk (c # d) s, st)"
  by (cases x) (simp add: handleMessage_def audioData_def)

theorem first_part_only_witness:
  "handleMessage example_callbacks True
     \<lparr>serverContent = Some \<lparr>modelTurn = Some \<lparr>parts = Some
        [\<lparr>inlineData = None\<rparr>, \<lparr>inlineData = Some \<lparr>blobData = Some ''AAA=''\<rparr>\<rparr>]\<rparr>\<rparr>,
      toolCall = None\<rparr> (example_service, 0) = (example_service, 0)"
  using first_part_only [where p = "\<lparr>inlineData = None\<rparr>" and callbacks = example_callbacks
      and ps = "[\<lparr>inlineData = Some \<lparr>blobData = Some ''AAA=''\<rparr>\<rparr>]" and resumeOk = True
      and s = example_service and st = "0::nat"]
  by blast

subsection \<open>Playback\<close>

lemma queueAudio_decoded:
  assumes "outputAudioContext s = Some ctx" and "outputAnalyser s = Some an"
    and "decode_chunk d = Inr b"
  shows "scheduled (queueAudio resumeOk d s) =
           started ctx @ [\<lparr>sourceBuffer = b, startTime = max (nextStartTime s) (currentTime ctx)\<rparr>]"
    and "nextStartTime (queueAudio resumeOk d s) =
           fl64 (max (nextStartTime s) (currentTime ctx) + duration b)"
    and "\<exists>c. outputAudioContext (queueAudio resumeOk d s) = Some c \<and> currentTime c = currentTime ctx"
    and "outputAnalyser (queueAudio resumeOk d s) \<noteq> None"
  using assms by (auto simp: queueAudio_def scheduled_def Let_def max_def)

lemma queueAudio_dropped:
  assumes "decode_chunk d = Inl e"
  shows "nextStartTime (queueAudio resumeOk d s) = nextStartTime s"
    and "scheduled (queueAudio resumeOk d s) = scheduled s"
    and "session (queueAudio resumeOk d s) = session s"
    and "outputAnalyser (queueAudio resumeOk d s) = outputAnalyser s"
    and "map_option currentTime (outputAudioContext (queueAudio resumeOk d s)) =
         map_option currentTime (outputAudioContext s)"
    and "outputAudioContext (queueAudio resumeOk d s) = None \<longleftrightarrow> outputAudioContext s = None"
  using assms by (auto simp: queueAudio_def scheduled_def Let_def split: option.splits)

lemma nextStartTime_queueAudio:
  "nextStartTime (queueAudio r d s) =
     (case (map_option currentTime (outputAudioContext s), outputAnalyser s = None, decode_chunk d) of
        (Some t, False, Inr b) \<Rightarrow> fl64 (max (nextStartTime s) t + duration b)
      | _ \<Rightarrow> nextStartTime s)"
  by (simp add: queueAudio_def Let_def max_def split: option.splits sum.splits)

lemma scheduled_queueAudio:
  "scheduled (queueAudio r d s) =
     (case (map_option currentTime (outputAudioContext s), outputAnalyser s = None, decode_chunk d) of
        (Some t, False, Inr b) \<Rightarrow>
          scheduled s @ [\<lparr>sourceBuffer = b, startTime = max (nextStartTime s) t\<rparr>]
      | _ \<Rightarrow> scheduled s)"
  by (simp add: queueAudio_def scheduled_def Let_def max_def split: option.splits sum.splits)

lemma queueAudio_schedule_depends:
  assumes "nextStartTime s1 = nextStartTime s2"
    and "scheduled s1 = scheduled s2"
    and "map_option currentTime (outputAudioContext s1) = map_option currentTime (outputAudioContext s2)"
    and "outputAnalyser s1 = None \<longleftrightarrow> outputAnalyser s2 = None"
  shows "nextStartTime (queueAudio r d s1) = nextStartTime (queueAudio r' d s2) \<and>
         scheduled (queueAudio r d s1) = scheduled (queueAudio r' d s2)"
  unfolding nextStartTime_queueAudio scheduled_queueAudio assms by simp

lemma decode_chunk_zero:
  "decode_chunk ''AAA='' = Inr \<lparr>channelData = [Some 0], bufferRate = 24000\<rparr>"
  by (simp add: decode_chunk_def base64ToArrayBuffer_def atob_def strip_padding_def
      ascii_whitespace_def b64_index_def charCodeAt_def createAudioBufferFromPCM_def
      int16ToFloat32_def unscale_sample_def fl32_def fl64_def fround_def)

lemma decode_chunk_bad: "decode_chunk ''!'' = Inl InvalidCharacterError"
  by (simp add: decode_chunk_def base64ToArrayBuffer_def atob_def strip_padding_def
      ascii_whitespace_def)

text \<open>
  Claim C3. A call of the playback scheduler on a connected service with a chunk that
  decodes to a buffer of duration \<open>d\<close>, the output clock reading \<open>now\<close>: when the cursor is
  behind \<open>now\<close> the source is started at \<open>now\<close> and the cursor becomes \<open>now + d\<close>; otherwise
  it is started at the cursor and the cursor becomes the cursor plus \<open>d\<close> (the sums being
  those of doubles). The start is never before the clock, and the next decodable chunk,
  whatever the clock reads then, is started after this one, at the new cursor or at the
  clock when the clock has passed it.
\<close>

theorem queueAudio_schedules:
  assumes "outputAudioContext s = Some ctx" and "outputAnalyser s = Some an"
    and "decode_chunk d = Inr b" and "now = currentTime ctx"
    and "s' = queueAudio resumeOk d s"
  shows "(nextStartTime s < now \<longrightarrow>
            scheduled s' = started ctx @ [\<lparr>sourceBuffer = b, startTime = now\<rparr>] \<and>
            nextStartTime s' = fl64 (now + duration b)) \<and>
         (\<not> nextStartTime s < now \<longrightarrow>
            scheduled s' = started ctx @ [\<lparr>sourceBuffer = b, startTime = nextStartTime s\<rparr>] \<and>
            nextStartTime s' = fl64 (nextStartTime s + duration b)) \<and>
         now \<le> startTime (last (scheduled s')) \<and>
         (\<forall>t r2 d2 b2. decode_chunk d2 = Inr b2 \<longrightarrow>
            scheduled (queueAudio r2 d2 (clock_at t s')) =
              scheduled s' @ [\<lparr>sourceBuffer = b2, startTime = max (nextStartTime s') t\<rparr>])"
proof -
  note q = queueAudio_decoded [OF assms(1,2,3), of resumeOk]
  obtain c where c: "outputAudioContext s' = Some c" "currentTime c = currentTime ctx"
    using q(3) assms(5) by blast
  obtain an' where an': "outputAnalyser s' = Some an'"
    using q(4) assms(5) by blast
  have later: "scheduled (queueAudio r2 d2 (clock_at t s')) =
      scheduled s' @ [\<lparr>sourceBuffer = b2, startTime = max (nextStartTime s') t\<rparr>]"
    if "decode_chunk d2 = Inr b2" for t r2 d2 b2
  proof -
    have "outputAudioContext (clock_at t s') = Some (c\<lparr>currentTime := t\<rparr>)"
      "outputAnalyser (clock_at t s') = Some an'"
      by (simp_all add: clock_at_def c an')
    from queueAudio_decoded(1) [OF this that, of r2] show ?thesis
      by (simp add: clock_at_def scheduled_def c)
  qed
  show ?thesis
    using q(1,2) later by (simp add: assms(4,5) max_def)
qed

theorem queueAudio_schedules_witness:
  "scheduled (queueAudio True ''AAA='' example_service) =
     [\<lparr>sourceBuffer = \<lparr>channelData = [Some 0], bufferRate = 24000\<rparr>, startTime = 5\<rparr>] \<and>
   nextStartTime (queueAudio True ''AAA='' example_service) =
     fl64 (5 + duration \<lparr>channelData = [Some 0], bufferRate = 24000\<rparr>)"
proof -
  have h: "outputAudioContext example_service =
      Some \<lparr>ctxState = Running, currentTime = 5, started = []\<rparr>"
    "outputAnalyser example_service = Some \<lparr>fftSize = 256, analyserConnections = []\<rparr>"
    "5 = currentTime \<lparr>ctxState = Running, currentTime = 5, started = []\<rparr>"
    "nextStartTime example_service < 5"
    by (simp_all add: example_service_def)
  from queueAudio_schedules [OF h(1,2) decode_chunk_zero h(3) refl, of True] h(4)
  show ?thesis by simp
qed

text \<open>
  Claim C9. A chunk whose decoding or buffer construction fails is dropped by the
  scheduler: nothing is raised, the cursor and the list of started sources are as before,
  the session is untouched, and any chunk handled next is scheduled exactly as it would
  have been without the malformed one.
\<close>

theorem malformed_chunk_dropped:
  assumes "decode_chunk d = Inl e"
  shows "nextStartTime (queueAudio resumeOk d s) = nextStartTime s \<and>
         scheduled (queueAudio resumeOk d s) = scheduled s \<and>
         session (queueAudio resumeOk d s) = session s \<and>
         (\<forall>r2 d2. nextStartTime (queueAudio r2 d2 (queueAudio resumeOk d s)) =
                    nextStartTime (queueAudio r2 d2 s) \<and>
                  scheduled (queueAudio r2 d2 (queueAudio resumeOk d s)) =
                    scheduled (queueAudio r2 d2 s))"
  using queueAudio_dropped [OF assms, of resumeOk s]
    queueAudio_schedule_depends [of "queueAudio resumeOk d s" s]
  by simp

theorem malformed_chunk_dropped_witness:
  "nextStartTime (queueAudio True ''!'' example_service) = 0 \<and>
   scheduled (queueAudio True ''!'' example_service) = [] \<and>
   scheduled (queueAudio True ''AAA='' (queueAudio True ''!'' example_service)) =
     scheduled (queueAudio True ''AAA='' example_service)"
  using malformed_chunk_dropped [OF decode_chunk_bad, of True example_service]
  by (simp add: example_service_def scheduled_def)

subsection \<open>Transport encoding\<close>

lemma b64_index_char: "n < 64 \<Longrightarrow> b64_index (b64_char n) = Some n"
  by (auto simp: b64_index_def b64_char_def Let_def of_char_of)

lemma b64_char_not_pad: "n < 64 \<Longrightarrow> b64_char n \<noteq> CHR ''=''"
  using b64_index_char [of n] by (auto simp: b64_index_def)

lemma b64_char_not_space: "n < 64 \<Longrightarrow> \<not> ascii_whitespace (b64_char n)"
  by (auto simp: ascii_whitespace_def b64_char_def of_char_of)

lemma pad_not_space: "\<not> ascii_whitespace CHR ''=''"
  by (simp add: ascii_whitespace_def)

lemma b64_encode_split: "b64_encode ns = map b64_char (b64_sextets ns) @ b64_padding ns"
  by (induction ns rule: b64_encode.induct) simp_all

lemma b64_sextets_bound: "\<forall>n \<in> set ns. n < 256 \<Longrightarrow> \<forall>x \<in> set (b64_sextets ns). x < 64"
  by (induction ns rule: b64_sextets.induct) (auto simp: less_mult_imp_div_less)

lemma b64_padding_cases:
  "(b64_padding ns = [] \<and> length (b64_sextets ns) mod 4 = 0) \<or>
   (b64_padding ns = [CHR ''=''] \<and> length (b64_sextets ns) mod 4 = 3) \<or>
   (b64_padding ns = [CHR ''='', CHR ''=''] \<and> length (b64_sextets ns) mod 4 = 2)"
  by (induction ns rule: b64_sextets.induct) auto

lemma sextet_arith:
  assumes "a < 256" "b < 256" "c < (256::nat)"
  shows "a div 4 * 4 + (a mod 4 * 16 + b div 16) div 16 = a"
    and "(a mod 4 * 16 + b div 16) mod 16 * 16 + (b mod 16 * 4 + c div 64) div 4 = b"
    and "(b mod 16 * 4 + c div 64) mod 4 * 64 + c mod 64 = c"
    and "(a mod 4 * 16 + b div 16) mod 16 * 16 + (b mod 16 * 4) div 4 = b"
    and "a div 4 * 4 + (a mod 4 * 16) div 16 = a"
proof -
  have b16: "b div 16 < 16" and c64: "c div 64 < 4"
    using assms by simp_all
  have 1: "(a mod 4 * 16 + b div 16) div 16 = a mod 4"
    using b16 by simp
  have 2: "(a mod 4 * 16 + b div 16) mod 16 = b div 16"
    using b16 by simp
  have 3: "(b mod 16 * 4 + c div 64) div 4 = b mod 16"
    using c64 by simp
  have 4: "(b mod 16 * 4 + c div 64) mod 4 = c div 64"
    using c64 by simp
  show "a div 4 * 4 + (a mod 4 * 16 + b div 16) div 16 = a"
    unfolding 1 by simp
  show "(a mod 4 * 16 + b div 16) mod 16 * 16 + (b mod 16 * 4 + c div 64) div 4 = b"
    unfolding 2 3 by simp
  show "(b mod 16 * 4 + c div 64) mod 4 * 64 + c mod 64 = c"
    unfolding 4 by simp
  show "(a mod 4 * 16 + b div 16) mod 16 * 16 + (b mod 16 * 4) div 4 = b"
    unfolding 2 by simp
  show "a div 4 * 4 + (a mod 4 * 16) div 16 = a"
    by simp
qed

lemma b64_decode_sextets: "\<forall>n \<in> set ns. n < 256 \<Longrightarrow> b64_decode (b64_sextets ns) = ns"
proof (induction ns rule: b64_sextets.induct)
  case (1 a b c r)
  then have "a < 256" "b < 256" "c < 256" by simp_all
  from sextet_arith(1-3) [OF this] 1 show ?case by simp
next
  case (2 a b)
  then have "a < 256" "b < 256" by simp_all
  from sextet_arith(1,4) [OF this, of 0] show ?case by simp
next
  case (3 a)
  then have "a < 256" by simp
  from sextet_arith(5) [OF this, of 0 0] show ?case by simp
next
  case 4
  then show ?case by simp
qed

lemma those_b64_index:
  "\<forall>x \<in> set xs. x < 64 \<Longrightarrow> those (map b64_index (map b64_char xs)) = Some xs"
  by (induction xs) (simp_all add: b64_index_char)

lemma strip_padding_encoded:
  assumes "\<forall>x \<in> set xs. x < 64"
    and "(pad = [] \<and> length xs mod 4 = 0) \<or> (pad = [CHR ''=''] \<and> length xs mod 4 = 3) \<or>
         (pad = [CHR ''='', CHR ''=''] \<and> length xs mod 4 = 2)"
  shows "strip_padding (map b64_char xs @ pad) = map b64_char xs"
proof -
  have last: "last (map b64_char xs) \<noteq> CHR ''=''" if "xs \<noteq> []"
    using that assms(1) by (simp add: last_map b64_char_not_pad)
  from assms(2) show ?thesis
  proof (elim disjE conjE)
    assume "pad = []" "length xs mod 4 = 0"
    then show ?thesis
      using last by (cases "xs = []") (auto simp: strip_padding_def)
  next
    assume p: "pad = [CHR ''='']" "length xs mod 4 = 3"
    then have "xs \<noteq> []" by auto
    with p last show ?thesis
      by (simp add: strip_padding_def butlast_append mod_Suc)
  next
    assume p: "pad = [CHR ''='', CHR ''='']" "length xs mod 4 = 2"
    then have "xs \<noteq> []" by auto
    with p last show ?thesis
      by (simp add: strip_padding_def butlast_append mod_Suc)
  qed
qed

lemma atob_b64_encode:
  assumes "\<forall>n \<in> set ns. n < 256"
  shows "atob (b64_encode ns) = Inr (map char_of ns)"
proof -
  let ?xs = "b64_sextets ns"
  have small: "\<forall>x \<in> set ?xs. x < 64"
    using assms by (rule b64_sextets_bound)
  have clean: "filter (\<lambda>c. \<not> ascii_whitespace c) (b64_encode ns) = b64_encode ns"
    using small b64_padding_cases [of ns]
    by (auto simp: b64_encode_split filter_id_conv b64_char_not_space pad_not_space)
  have strip: "strip_padding (b64_encode ns) = map b64_char ?xs"
    unfolding b64_encode_split using small b64_padding_cases [of ns]
    by (rule strip_padding_encoded)
  have len: "length (map b64_char ?xs) mod 4 \<noteq> 1"
    using b64_padding_cases [of ns] by auto
  show ?thesis
    unfolding atob_def clean strip Let_def those_b64_index [OF small]
    using len by (simp add: b64_decode_sextets [OF assms])
qed

lemma unat_byte: "unat (w :: 8 word) < 256"
  using unsigned_less [where 'a = nat and w = w] by simp

text \<open>
  Claim C4. For every byte sequence, the empty one included, \<^verbatim>\<open>arrayBufferToBase64\<close>
  succeeds and \<^verbatim>\<open>base64ToArrayBuffer\<close> of its result gives the byte sequence back.
\<close>

theorem transport_roundtrip:
  "\<exists>encoded. arrayBufferToBase64 b = Inr encoded \<and> base64ToArrayBuffer encoded = Inr b"
proof -
  have codes: "map of_char (map fromCharCode b) = map unat b"
    by (simp add: fromCharCode_def of_char_of comp_def unat_byte)
  have bytes: "\<forall>n \<in> set (map unat b). n < 256"
    using unat_byte by auto
  have decoded: "map charCodeAt (map char_of (map unat b)) = b"
    by (simp add: charCodeAt_def of_char_of comp_def unat_byte map_idI)
  have enc: "arrayBufferToBase64 b = Inr (b64_encode (map unat b))"
    unfolding arrayBufferToBase64_def btoa_def codes ..
  have dec: "base64ToArrayBuffer (b64_encode (map unat b)) = Inr b"
    unfolding base64ToArrayBuffer_def atob_b64_encode [OF bytes]
    by (simp only: sum.case decoded)
  from enc dec show ?thesis by blast
qed

theorem transport_roundtrip_witness:
  "arrayBufferToBase64 [] = Inr [] \<and> base64ToArrayBuffer [] = Inr [] \<and>
   arrayBufferToBase64 [72, 105] = Inr ''SGk='' \<and> base64ToArrayBuffer ''SGk='' = Inr [72, 105]"
proof -
  have e: "arrayBufferToBase64 [] = Inr []" "arrayBufferToBase64 [72, 105] = Inr ''SGk=''"
    by code_simp+
  from transport_roundtrip [of "[]"] transport_roundtrip [of "[72, 105]"] e
  show ?thesis by simp
qed

subsection \<open>Rounding\<close>

lemma ilog2_bounds:
  assumes "q \<noteq> 0"
  shows "2 powi ilog2 q \<le> \<bar>q\<bar> \<and> \<bar>q\<bar> < 2 powi (ilog2 q + 1)"
proof (cases "1 \<le> \<bar>q\<bar>")
  case True
  define n where "n = nat \<lfloor>\<bar>q\<bar>\<rfloor>"
  define k where "k = floorlog 2 n"
  have n: "0 < n" using True by (simp add: n_def)
  have e: "ilog2 q = int k - 1"
    using True by (simp add: ilog2_def n_def k_def)
  from floorlog_bounds [OF n, of 2] have b: "2 ^ (k - 1) \<le> n" "n < 2 ^ k"
    by (simp_all add: k_def)
  have k: "0 < k" using b(2) n by (cases k) auto
  have "(2::rat) ^ (k - 1) \<le> of_nat n"
    using b(1) by (metis of_nat_le_iff of_nat_numeral of_nat_power)
  also have "of_nat n = (of_int \<lfloor>\<bar>q\<bar>\<rfloor> :: rat)"
    by (simp add: n_def)
  also have "\<dots> \<le> \<bar>q\<bar>" by simp
  finally have lo: "(2::rat) ^ (k - 1) \<le> \<bar>q\<bar>" .
  have "\<lfloor>\<bar>q\<bar>\<rfloor> < 2 ^ k"
    using b(2) by (simp add: n_def nat_less_iff)
  then have hi: "\<bar>q\<bar> < 2 ^ k"
    by (metis floor_less_iff of_int_numeral of_int_power)
  have p1: "(2::rat) powi (int k - 1) = 2 ^ (k - 1)"
    using k by (simp add: power_int_def nat_diff_distrib')
  have p2: "(2::rat) powi (int k - 1 + 1) = 2 ^ k"
    by (simp add: power_int_def)
  show ?thesis
    unfolding e p1 p2 using lo hi by simp
next
  case False
  define a where "a = \<bar>q\<bar>"
  have a: "0 < a" "a < 1" using False assms by (simp_all add: a_def)
  define m where "m = \<lceil>1 / a\<rceil>"
  define n where "n = nat (m - 1)"
  define k where "k = floorlog 2 n"
  have inv: "1 < 1 / a" using a by simp
  have m: "2 \<le> m" using inv by (simp add: m_def)
  have n: "0 < n" using m by (simp add: n_def)
  have e: "ilog2 q = - int k"
    using False by (simp add: ilog2_def n_def k_def m_def a_def Let_def)
  from floorlog_bounds [OF n, of 2] have b: "2 ^ (k - 1) \<le> n" "n < 2 ^ k"
    by (simp_all add: k_def)
  have k: "0 < k" using b(2) n by (cases k) auto
  have "(2::rat) ^ (k - 1) \<le> of_nat n"
    using b(1) by (metis of_nat_le_iff of_nat_numeral of_nat_power)
  also have "of_nat n = (of_int (m - 1) :: rat)"
    using m by (simp add: n_def)
  also have "\<dots> < 1 / a"
    using ceiling_correct [of "1 / a"] by (simp add: m_def)
  finally have lo: "(2::rat) ^ (k - 1) < 1 / a" .
  have "m - 1 < 2 ^ k"
    using b(2) m by (simp add: n_def nat_less_iff)
  then have "m \<le> 2 ^ k" by simp
  then have "(of_int m :: rat) \<le> 2 ^ k"
    by (metis of_int_le_iff of_int_numeral of_int_power)
  moreover have "1 / a \<le> of_int m"
    by (simp add: m_def)
  ultimately have hi: "1 / a \<le> 2 ^ k" by (rule order_trans [rotated])
  have p1: "(2::rat) powi (- int k) = 1 / 2 ^ k"
    by (simp add: power_int_minus_divide)
  have "- int k + 1 = - int (k - 1)"
    using k by simp
  then have p2: "(2::rat) powi (- int k + 1) = 1 / 2 ^ (k - 1)"
    by (simp only: power_int_minus_divide power_int_of_nat)
  have "1 / 2 ^ k \<le> a"
    using hi a by (simp add: field_simps)
  moreover have "a < 1 / 2 ^ (k - 1)"
    using lo a by (simp add: field_simps)
  ultimately show ?thesis
    unfolding e p1 p2 a_def by simp
qed

lemma powi2_less_cancel: "(2::rat) powi a < 2 powi b \<Longrightarrow> a < b"
  using power_int_increasing [of b a "2::rat"] by (cases "a < b") auto


lemma powi2_pos: "0 < (2::rat) powi a"
  by simp



lemma round_even_of_int [simp]: "round_even (of_int n) = n"
  by (simp add: round_even_def)






lemma spacing_pos: "0 < spacing p emin q"
  by (simp add: spacing_def)

lemma fround_spacing:
  "fround p emin q =
     (if q = 0 then 0 else of_int (round_even (q / spacing p emin q)) * spacing p emin q)"
  by (simp add: fround_def spacing_def Let_def)





lemma powi2_nat: "0 \<le> k \<Longrightarrow> (2::rat) powi k = of_int (2 ^ nat k)"
  by (simp add: power_int_def)

lemma fround_exact:
  assumes "\<bar>m\<bar> < 2 ^ p" and "emin - int p + 1 \<le> j"
  shows "fround p emin (of_int m * 2 powi j) = of_int m * 2 powi j"
proof (cases "m = 0")
  case True
  then show ?thesis by (simp add: fround_spacing)
next
  case False
  define q :: rat where "q = of_int m * 2 powi j"
  have q: "q \<noteq> 0" using False by (simp add: q_def)
  have "\<bar>q\<bar> = of_int \<bar>m\<bar> * 2 powi j"
    by (simp add: q_def abs_mult)
  also have "\<dots> < 2 ^ p * 2 powi j"
  proof -
    have "(of_int \<bar>m\<bar> :: rat) < of_int (2 ^ p)"
      using assms(1) by (simp only: of_int_less_iff)
    then show ?thesis by simp
  qed
  also have "\<dots> = 2 powi (int p + j)"
    by (simp add: power_int_add)
  finally have "2 powi ilog2 q < (2::rat) powi (int p + j)"
    using ilog2_bounds [OF q] by linarith
  then have "ilog2 q < int p + j"
    by (rule powi2_less_cancel)
  with assms(2) have t: "max (ilog2 q) emin - int p + 1 \<le> j"
    by simp
  define k where "k = j - (max (ilog2 q) emin - int p + 1)"
  have k: "0 \<le> k" using t by (simp add: k_def)
  have "q / spacing p emin q = of_int m * 2 powi k"
    by (simp add: q_def spacing_def k_def power_int_diff)
  also have "\<dots> = of_int (m * 2 ^ nat k)"
    using k by (simp add: powi2_nat)
  finally have "of_int (round_even (q / spacing p emin q)) = q / spacing p emin q"
    by (simp only: round_even_of_int)
  then have "fround p emin q = q"
    using q spacing_pos [of p emin q] by (simp add: fround_spacing)
  then show ?thesis by (simp add: q_def)
qed

lemma fround_of_int: "\<bar>m\<bar> < 2 ^ p \<Longrightarrow> emin - int p + 1 \<le> 0 \<Longrightarrow> fround p emin (of_int m) = of_int m"
  using fround_exact [of m p emin 0] by simp












lemma fl64_exact: "\<bar>m\<bar> < 2 ^ 53 \<Longrightarrow> - 1074 \<le> j \<Longrightarrow> fl64 (of_int m * 2 powi j) = of_int m * 2 powi j"
  unfolding fl64_def by (rule fround_exact) simp_all

lemma fl32_exact: "\<bar>m\<bar> < 2 ^ 24 \<Longrightarrow> - 149 \<le> j \<Longrightarrow> fl32 (of_int m * 2 powi j) = of_int m * 2 powi j"
  unfolding fl32_def by (rule fround_exact) simp_all

lemma fl64_of_int: "\<bar>m\<bar> < 2 ^ 53 \<Longrightarrow> fl64 (of_int m) = of_int m"
  using fl64_exact [of m 0] by simp

lemma fl32_of_int: "\<bar>m\<bar> < 2 ^ 24 \<Longrightarrow> fl32 (of_int m) = of_int m"
  using fl32_exact [of m 0] by simp

lemma fl64_0 [simp]: "fl64 0 = 0"
  by (simp add: fl64_def fround_def)

lemma fl32_0 [simp]: "fl32 0 = 0"
  by (simp add: fl32_def fround_def)

lemma fl64_1 [simp]: "fl64 1 = 1"
  using fl64_of_int [of 1] by simp

lemma fl32_1 [simp]: "fl32 1 = 1"
  using fl32_of_int [of 1] by simp












subsection \<open>PCM codec\<close>



lemma word_of_sint16: "word_of_int (sint (w :: 16 word)) = w"
  by simp






















subsection \<open>Resampler\<close>

lemma offset_22400: "sample_offset (fl64 (22400 / 16000)) 15 = 21"
  unfolding sample_offset_def fl64_def by code_simp

lemma newLength_22400: "newLength (replicate 21 (Some 0)) (fl64 (22400 / 16000)) = 16"
  unfolding newLength_def fl64_def by code_simp



text \<open>
  Claim C7 does not hold of the code. For a block of 21 samples at 22400 Hz the ratio is
  the double nearest to 1.4, which lies below 1.4; the quotient \<open>21 / ratio\<close> rounds to
  the double just above 15, so the loop runs for 16 output samples; and at \<open>i = 15\<close> the
  product \<open>15 * ratio\<close> rounds up to exactly 21. The lower index is then 21, the length
  of the block: \<^verbatim>\<open>buffer[index]\<close> is read past the end. Only \<^verbatim>\<open>nextIndex\<close> is
  clamped.
\<close>

theorem resample_reads_past_end:
  "newLength (replicate 21 (Some 0)) (fl64 (22400 / 16000)) = 16 \<and>
   sample_index (fl64 (22400 / 16000)) 15 = 21 \<and>
   \<not> in_bounds (replicate 21 (Some 0)) (sample_index (fl64 (22400 / 16000)) 15) \<and>
   js_get (replicate 21 (Some 0)) (sample_index (fl64 (22400 / 16000)) 15) = None"
proof -
  have i: "sample_index (fl64 (22400 / 16000)) 15 = 21"
    unfolding sample_index_def offset_22400 by simp
  show ?thesis
    unfolding i newLength_22400 by (simp add: in_bounds_def js_get_def)
qed










end
